theory Spec2Isabelle
  imports Main "HOL-Library.Word"
begin

section \<open>Webhook verification and parsing (ezunsub/webhook.py)\<close>

text \<open>
  The development embeds \<open>WebhookVerifier\<close> and \<open>WebhookPayload\<close> of
  \<open>src/ezunsub/webhook.py\<close>.

  Conventions.
  \<^item> A Python \<open>str\<close> is a \<open>string\<close>; a character is its code point, below 256. A character
    with code 128 or more is a non-ASCII character.
  \<^item> A \<open>bytes\<close> value is a list of 8-bit words.
  \<^item> An exception is a value of type \<open>error\<close>; a function that can raise returns
    \<open>error + 'a\<close>, with \<open>Inl\<close> for the exception.
  \<^item> The functions of the Python runtime whose results the module only passes on
    (the clock, HMAC-SHA256, \<open>json.loads\<close>, \<open>int\<close> on a string) are fields of a record
    \<open>runtime\<close>, so every statement holds for whatever they return.
  \<^item> \<open>verify_signature\<close> and \<open>verify_and_parse\<close> return, beside their result, the list
    of calls they made to the runtime, in order.
\<close>

subsection \<open>Values, exceptions, runtime\<close>

type_synonym byte = "8 word"

datatype error =
    ValueError string
  | TypeError
  | KeyError string
  | AttributeError
  | JSONDecodeError string
  | OtherError string

text \<open>What \<open>json.loads\<close> returns: a \<open>dict\<close> keeps its items in insertion order.\<close>

datatype json =
    JNull
  | JBool bool
  | JInt int
  | JFloat int int
  | JStr string
  | JList "json list"
  | JDict "(string \<times> json) list"

datatype call =
    Time_time
  | Hmac_new "byte list" "byte list"
  | Compare_digest string string
  | Json_loads string
  | Int_str string

record runtime =
  now :: int  \<comment> \<open>\<open>int(time.time())\<close>\<close>
  hmac_sha256 :: "byte list \<Rightarrow> byte list \<Rightarrow> byte list"  \<comment> \<open>key, message, digest\<close>
  json_loads :: "string \<Rightarrow> error + json"
  int_str :: "string \<Rightarrow> error + int"  \<comment> \<open>\<open>int(s)\<close> for a \<open>str\<close>\<close>

subsection \<open>Strings and bytes\<close>

definition is_ascii :: "string \<Rightarrow> bool" where
  "is_ascii s = list_all (\<lambda>c. (of_char c :: nat) < 128) s"

text \<open>\<open>str.encode()\<close>: UTF-8, one byte below 128 and two bytes from 128 to 255.\<close>

definition encode_char :: "char \<Rightarrow> byte list" where
  "encode_char c =
     (let n = (of_char c :: nat) in
      if n < 128 then [word_of_nat n]
      else [word_of_nat (192 + n div 64), word_of_nat (128 + n mod 64)])"

definition encode :: "string \<Rightarrow> byte list" where
  "encode s = concat (map encode_char s)"

text \<open>\<open>HMAC.hexdigest()\<close>: two lowercase hexadecimal digits for each byte.\<close>

definition hex_digit :: "nat \<Rightarrow> char" where
  "hex_digit n = ''0123456789abcdef'' ! (n mod 16)"

definition hex_byte :: "byte \<Rightarrow> string" where
  "hex_byte b = [hex_digit (unat b div 16), hex_digit (unat b mod 16)]"

definition hexdigest :: "byte list \<Rightarrow> string" where
  "hexdigest bs = concat (map hex_byte bs)"

text \<open>The decimal text of an integer, as an f-string renders it.\<close>

fun str_nat :: "nat \<Rightarrow> string" where
  "str_nat n =
     (if n < 10 then [''0123456789'' ! n]
      else str_nat (n div 10) @ [''0123456789'' ! (n mod 10)])"

declare str_nat.simps [simp del]

definition str_int :: "int \<Rightarrow> string" where
  "str_int i = (if i < 0 then CHR ''-'' # str_nat (nat (- i)) else str_nat (nat i))"

definition startswith :: "string \<Rightarrow> string \<Rightarrow> bool" where
  "startswith s p = (take (length p) s = p)"

text \<open>
  \<open>hmac.compare_digest\<close> on two \<open>str\<close> values: a \<open>TypeError\<close> unless both are ASCII,
  their equality otherwise.
\<close>

definition compare_digest :: "string \<Rightarrow> string \<Rightarrow> error + bool" where
  "compare_digest a b = (if is_ascii a \<and> is_ascii b then Inr (a = b) else Inl TypeError)"

text \<open>\<open>str.lower()\<close> on code points below 256.\<close>

definition lower_char :: "char \<Rightarrow> char" where
  "lower_char c =
     (let n = (of_char c :: nat) in
      if (65 \<le> n \<and> n \<le> 90) \<or> (192 \<le> n \<and> n \<le> 222 \<and> n \<noteq> 215) then char_of (n + 32)
      else c)"

definition lower :: "string \<Rightarrow> string" where
  "lower s = map lower_char s"

subsection \<open>WebhookPayload\<close>

definition WebhookEvent :: "string list" where
  "WebhookEvent =
     [''contact.created'', ''contact.updated'', ''complaint.created'', ''complaint.updated'',
      ''link.created'', ''link.clicked'', ''export.completed'', ''test'']"

text \<open>
  The dataclass checks no field type: \<open>event\<close>, \<open>timestamp\<close> and \<open>data\<close> hold whatever
  JSON value the body has under that key.
\<close>

record WebhookPayload =
  event :: json
  timestamp :: json
  data :: json
  delivery_id :: string

text \<open>\<open>self.data.get(key)\<close>: \<open>None\<close> when the key is absent; only a \<open>dict\<close> has \<open>get\<close>.\<close>

definition data_get :: "WebhookPayload \<Rightarrow> string \<Rightarrow> error + json option" where
  "data_get p k = (case data p of JDict d \<Rightarrow> Inr (map_of d k) | _ \<Rightarrow> Inl AttributeError)"

definition contact_id :: "WebhookPayload \<Rightarrow> error + json option" where
  "contact_id p = data_get p ''contactId''"

definition link_code :: "WebhookPayload \<Rightarrow> error + json option" where
  "link_code p = data_get p ''linkCode''"

definition email :: "WebhookPayload \<Rightarrow> error + json option" where
  "email p = data_get p ''email''"

definition email_hash :: "WebhookPayload \<Rightarrow> error + json option" where
  "email_hash p = data_get p ''emailHash''"

definition phone :: "WebhookPayload \<Rightarrow> error + json option" where
  "phone p = data_get p ''phone''"

definition phone_hash :: "WebhookPayload \<Rightarrow> error + json option" where
  "phone_hash p = data_get p ''phoneHash''"

subsection \<open>WebhookVerifier\<close>

record WebhookVerifier =
  secret :: string
  max_age_seconds :: int

text \<open>\<open>__init__\<close>, with the default of \<open>max_age_seconds\<close>.\<close>

definition init :: "string \<Rightarrow> int option \<Rightarrow> WebhookVerifier" where
  "init s m = \<lparr>secret = s, max_age_seconds = (case m of None \<Rightarrow> 300 | Some a \<Rightarrow> a)\<rparr>"

definition signing_message :: "int \<Rightarrow> string \<Rightarrow> string" where
  "signing_message tstamp body = str_int tstamp @ ''.'' @ body"

definition expected_signature :: "runtime \<Rightarrow> WebhookVerifier \<Rightarrow> int \<Rightarrow> string \<Rightarrow> string" where
  "expected_signature rt v tstamp body =
     hexdigest (hmac_sha256 rt (encode (secret v)) (encode (signing_message tstamp body)))"

definition sig_value :: "string \<Rightarrow> string" where
  "sig_value signature = (if startswith signature ''sha256='' then drop 7 signature else signature)"

definition verify_signature ::
  "runtime \<Rightarrow> WebhookVerifier \<Rightarrow> string \<Rightarrow> int \<Rightarrow> string \<Rightarrow> (error + bool) \<times> call list" where
  "verify_signature rt v signature tstamp body =
     (if \<bar>now rt - tstamp\<bar> > max_age_seconds v then (Inr False, [Time_time])
      else
        let message = signing_message tstamp body;
            expected = hexdigest (hmac_sha256 rt (encode (secret v)) (encode message))
        in (compare_digest expected (sig_value signature),
            [Time_time, Hmac_new (encode (secret v)) (encode message),
             Compare_digest expected (sig_value signature)]))"

text \<open>The \<open>timestamp\<close> argument of \<open>verify_and_parse\<close> is a \<open>str\<close> or an \<open>int\<close>.\<close>

datatype str_or_int = TsStr string | TsInt int

text \<open>\<open>key in data\<close> for a \<open>str\<close> key, by the type of \<open>data\<close>.\<close>

definition str_contains :: "string \<Rightarrow> string \<Rightarrow> bool" where
  "str_contains k s = list_ex (\<lambda>i. take (length k) (drop i s) = k) [0..<Suc (length s)]"

fun py_in :: "string \<Rightarrow> json \<Rightarrow> error + bool" where
  "py_in k (JDict d) = Inr (k \<in> set (map fst d))"
| "py_in k (JList xs) = Inr (JStr k \<in> set xs)"
| "py_in k (JStr s) = Inr (str_contains k s)"
| "py_in k _ = Inl TypeError"

text \<open>\<open>data[key]\<close> for a \<open>str\<close> key.\<close>

fun py_getitem :: "json \<Rightarrow> string \<Rightarrow> error + json" where
  "py_getitem (JDict d) k = (case map_of d k of None \<Rightarrow> Inl (KeyError k) | Some x \<Rightarrow> Inr x)"
| "py_getitem _ k = Inl TypeError"

text \<open>The part of \<open>verify_and_parse\<close> after \<open>json.loads\<close>: lines 177 to 190.\<close>

definition build_payload :: "json \<Rightarrow> string \<Rightarrow> error + WebhookPayload" where
  "build_payload d deliv =
     (case py_in ''event'' d of Inl e \<Rightarrow> Inl e | Inr has_event \<Rightarrow>
      if \<not> has_event then Inl (ValueError ''Missing 'event' field in payload'') else
      case py_in ''timestamp'' d of Inl e \<Rightarrow> Inl e | Inr has_timestamp \<Rightarrow>
      if \<not> has_timestamp then Inl (ValueError ''Missing 'timestamp' field in payload'') else
      case py_in ''data'' d of Inl e \<Rightarrow> Inl e | Inr has_data \<Rightarrow>
      if \<not> has_data then Inl (ValueError ''Missing 'data' field in payload'') else
      case py_getitem d ''event'' of Inl e \<Rightarrow> Inl e | Inr ev \<Rightarrow>
      case py_getitem d ''timestamp'' of Inl e \<Rightarrow> Inl e | Inr ts \<Rightarrow>
      case py_getitem d ''data'' of Inl e \<Rightarrow> Inl e | Inr da \<Rightarrow>
      Inr \<lparr>event = ev, timestamp = ts, data = da, delivery_id = deliv\<rparr>)"

text \<open>The part of \<open>verify_and_parse\<close> after the coercion of the timestamp: lines 167 to 190.\<close>

definition verify_then_parse ::
  "runtime \<Rightarrow> WebhookVerifier \<Rightarrow> string \<Rightarrow> int \<Rightarrow> string \<Rightarrow> string \<Rightarrow>
   (error + WebhookPayload) \<times> call list" where
  "verify_then_parse rt v signature ts body deliv =
     (case verify_signature rt v signature ts body of
        (Inl e, calls) \<Rightarrow> (Inl e, calls)
      | (Inr False, calls) \<Rightarrow> (Inl (ValueError ''Invalid webhook signature''), calls)
      | (Inr True, calls) \<Rightarrow>
          (case json_loads rt body of
             Inl (JSONDecodeError m) \<Rightarrow>
               (Inl (ValueError (''Invalid JSON payload: '' @ m)), calls @ [Json_loads body])
           | Inl e \<Rightarrow> (Inl e, calls @ [Json_loads body])
           | Inr d \<Rightarrow> (build_payload d deliv, calls @ [Json_loads body])))"

text \<open>Line 165: \<open>int(timestamp) if isinstance(timestamp, str) else timestamp\<close>.\<close>

definition coerce_timestamp :: "runtime \<Rightarrow> str_or_int \<Rightarrow> (error + int) \<times> call list" where
  "coerce_timestamp rt tstamp =
     (case tstamp of TsStr s \<Rightarrow> (int_str rt s, [Int_str s]) | TsInt i \<Rightarrow> (Inr i, []))"

definition verify_and_parse ::
  "runtime \<Rightarrow> WebhookVerifier \<Rightarrow> string \<Rightarrow> str_or_int \<Rightarrow> string \<Rightarrow> string \<Rightarrow>
   (error + WebhookPayload) \<times> call list" where
  "verify_and_parse rt v signature tstamp body deliv =
     (case coerce_timestamp rt tstamp of
        (Inl e, calls) \<Rightarrow> (Inl e, calls)
      | (Inr ts, calls) \<Rightarrow>
          (case verify_then_parse rt v signature ts body deliv of
             (r, calls') \<Rightarrow> (r, calls @ calls')))"

text \<open>The call without the \<open>delivery_id\<close> argument, which defaults to the empty text.\<close>

definition verify_and_parse_default ::
  "runtime \<Rightarrow> WebhookVerifier \<Rightarrow> string \<Rightarrow> str_or_int \<Rightarrow> string \<Rightarrow>
   (error + WebhookPayload) \<times> call list" where
  "verify_and_parse_default rt v signature tstamp body =
     verify_and_parse rt v signature tstamp body []"

text \<open>
  \<open>extract_headers\<close>. The dictionary comprehension inserts the items in order, so of two
  names with the same lowercase form the later one stays. \<open>not x\<close> holds when \<open>x\<close> is \<open>None\<close>
  or the empty text (\<open>truthy\<close> is its negation), and \<open>x or ""\<close> is the empty text in both
  cases.
\<close>

definition normalized :: "(string \<times> string) list \<Rightarrow> (string \<rightharpoonup> string)" where
  "normalized headers = foldl (\<lambda>m (k, v). m(lower k \<mapsto> v)) Map.empty headers"

definition truthy :: "string option \<Rightarrow> bool" where
  "truthy x = (case x of None \<Rightarrow> False | Some s \<Rightarrow> s \<noteq> [])"

definition extract_headers ::
  "(string \<times> string) list \<Rightarrow> error + (string \<times> string \<times> string \<times> string)" where
  "extract_headers headers =
     (let n = normalized headers;
          signature = n ''x-webhook-signature'';
          tstamp = n ''x-webhook-timestamp'';
          ev = n ''x-webhook-event'';
          deliv = (case n ''x-webhook-delivery-id'' of None \<Rightarrow> [] | Some d \<Rightarrow> d)
      in case signature of
           None \<Rightarrow> Inl (ValueError ''Missing X-Webhook-Signature header'')
         | Some sg \<Rightarrow>
             if sg = [] then Inl (ValueError ''Missing X-Webhook-Signature header'')
             else (case tstamp of
                     None \<Rightarrow> Inl (ValueError ''Missing X-Webhook-Timestamp header'')
                   | Some ts \<Rightarrow>
                       if ts = [] then Inl (ValueError ''Missing X-Webhook-Timestamp header'')
                       else Inr (sg, ts, (case ev of None \<Rightarrow> [] | Some e \<Rightarrow> e), deliv)))"

subsection \<open>A sample runtime\<close>

text \<open>
  The concrete instances below run on this runtime: the clock reads 1705312800, a keyed
  checksum of three bytes stands in for HMAC-SHA256, \<open>json.loads\<close> knows three bodies and
  rejects every other text, and \<open>int\<close> reads a text of ASCII digits and rejects every
  other text (as Python does with the texts used below). The theorems themselves hold for
  every runtime.
\<close>

definition checksum_mac :: "byte list \<Rightarrow> byte list \<Rightarrow> byte list" where
  "checksum_mac key msg = [sum_list key, sum_list msg, word_of_nat (length msg)]"

definition contact_body :: string where
  \<open>contact_body =
     ''{"event":"contact.created","timestamp":"2024-01-15T10:00:00Z","data":{"contactId":"abc123","emailHash":"sha1hash"}}''\<close>

definition contact_json :: json where
  "contact_json =
     JDict [(''event'', JStr ''contact.created''),
            (''timestamp'', JStr ''2024-01-15T10:00:00Z''),
            (''data'', JDict [(''contactId'', JStr ''abc123''), (''emailHash'', JStr ''sha1hash'')])]"

definition partial_body :: string where
  \<open>partial_body = ''{"event":"test","data":{}}''\<close>

definition partial_json :: json where
  "partial_json = JDict [(''event'', JStr ''test''), (''data'', JDict [])]"

definition unknown_body :: string where
  \<open>unknown_body =
     ''{"event":"order.shipped","timestamp":"2024-01-15T10:00:00Z","data":{},"delivery_id":"from-body"}''\<close>

definition unknown_json :: json where
  "unknown_json =
     JDict [(''event'', JStr ''order.shipped''),
            (''timestamp'', JStr ''2024-01-15T10:00:00Z''),
            (''data'', JDict []),
            (''delivery_id'', JStr ''from-body'')]"

definition sample_loads :: "string \<Rightarrow> error + json" where
  "sample_loads b =
     (if b = contact_body then Inr contact_json
      else if b = partial_body then Inr partial_json
      else if b = unknown_body then Inr unknown_json
      else Inl (JSONDecodeError ''Expecting value: line 1 column 1 (char 0)''))"

definition digits_int :: "string \<Rightarrow> error + int" where
  "digits_int s =
     (if s \<noteq> [] \<and> list_all (\<lambda>c. c \<in> set ''0123456789'') s
      then Inr (foldl (\<lambda>a c. 10 * a + (int (of_char c) - 48)) 0 s)
      else Inl (ValueError (''invalid literal for int() with base 10: '' @ [CHR 0x27] @ s @ [CHR 0x27])))"

definition sample_rt :: runtime where
  "sample_rt =
     \<lparr>now = 1705312800, hmac_sha256 = checksum_mac, json_loads = sample_loads,
      int_str = digits_int\<rparr>"

definition sample_verifier :: WebhookVerifier where
  "sample_verifier = init ''test-secret-123'' None"

section \<open>Properties\<close>

subsection \<open>Evaluation of the sample runtime\<close>

lemma sample_fields:
  "now sample_rt = 1705312800"
  "hmac_sha256 sample_rt = checksum_mac"
  "json_loads sample_rt = sample_loads"
  "int_str sample_rt = digits_int"
  "secret sample_verifier = ''test-secret-123''"
  "max_age_seconds sample_verifier = 300"
  by (simp_all add: sample_rt_def sample_verifier_def init_def)

lemmas eval_expected =
  expected_signature_def sample_fields checksum_mac_def signing_message_def str_int_def
  str_nat.simps encode_def encode_char_def hexdigest_def hex_byte_def hex_digit_def

lemma expected_contact_now:
  "expected_signature sample_rt sample_verifier 1705312800 contact_body = ''36c37e''"
  by (simp add: eval_expected contact_body_def)

lemma expected_contact_oldest:
  "expected_signature sample_rt sample_verifier 1705312500 contact_body = ''36c07e''"
  by (simp add: eval_expected contact_body_def)

lemma expected_contact_expired:
  "expected_signature sample_rt sample_verifier 1705312499 contact_body = ''36d17e''"
  by (simp add: eval_expected contact_body_def)

subsection \<open>The hexadecimal digest\<close>

lemma hex_digit_in: "hex_digit n \<in> set ''0123456789abcdef''"
  unfolding hex_digit_def by (rule nth_mem) simp

lemma hex_byte_chars:
  assumes "c \<in> set (hex_byte b)"
  shows "c \<in> set ''0123456789abcdef''"
proof -
  from assms have "c = hex_digit (unat b div 16) \<or> c = hex_digit (unat b mod 16)"
    by (simp add: hex_byte_def)
  then show ?thesis using hex_digit_in by blast
qed

lemma hexdigest_chars: "set (hexdigest bs) \<subseteq> set ''0123456789abcdef''"
proof
  fix c assume "c \<in> set (hexdigest bs)"
  then obtain b where "c \<in> set (hex_byte b)" by (auto simp: hexdigest_def)
  then show "c \<in> set ''0123456789abcdef''" by (rule hex_byte_chars)
qed

lemma is_ascii_hexdigest: "is_ascii (hexdigest bs)"
proof -
  have "is_ascii ''0123456789abcdef''" by (simp add: is_ascii_def)
  then show ?thesis
    using hexdigest_chars [of bs] unfolding is_ascii_def list_all_iff by blast
qed

text \<open>No digest starts with the prefix: \<open>s\<close> is not a hexadecimal digit.\<close>

lemma hexdigest_no_prefix: "\<not> startswith (hexdigest bs) ''sha256=''"
proof
  assume "startswith (hexdigest bs) ''sha256=''"
  then have "take (length ''sha256='') (hexdigest bs) = ''sha256=''"
    unfolding startswith_def .
  moreover have "CHR ''s'' \<in> set ''sha256=''" by simp
  ultimately have "CHR ''s'' \<in> set (take (length ''sha256='') (hexdigest bs))"
    by (simp only:)
  then have "CHR ''s'' \<in> set (hexdigest bs)" by (rule in_set_takeD)
  with hexdigest_chars [of bs] show False by auto
qed

lemma sig_value_hexdigest: "sig_value (hexdigest bs) = hexdigest bs"
  by (simp add: sig_value_def hexdigest_no_prefix)

lemma sig_value_prefixed: "sig_value (''sha256='' @ s) = s"
  by (simp add: sig_value_def startswith_def)

lemma compare_digest_hex: "compare_digest (hexdigest bs) s = Inr True \<longleftrightarrow> s = hexdigest bs"
  by (auto simp: compare_digest_def is_ascii_hexdigest)

subsection \<open>verify_signature\<close>

lemma verify_signature_stale:
  "\<bar>now rt - tstamp\<bar> > max_age_seconds v \<Longrightarrow>
   verify_signature rt v signature tstamp body = (Inr False, [Time_time])"
  by (simp add: verify_signature_def)

lemma verify_signature_fresh:
  "\<bar>now rt - tstamp\<bar> \<le> max_age_seconds v \<Longrightarrow>
   fst (verify_signature rt v signature tstamp body) =
     compare_digest (expected_signature rt v tstamp body) (sig_value signature)"
  by (simp add: verify_signature_def expected_signature_def Let_def)

lemma verify_signature_fresh_iff:
  assumes "\<bar>now rt - tstamp\<bar> \<le> max_age_seconds v"
  shows "fst (verify_signature rt v signature tstamp body) = Inr True \<longleftrightarrow>
         sig_value signature = expected_signature rt v tstamp body"
proof -
  have "compare_digest (expected_signature rt v tstamp body) s = Inr True \<longleftrightarrow>
        s = expected_signature rt v tstamp body" for s
    unfolding expected_signature_def by (rule compare_digest_hex)
  with assms show ?thesis by (simp add: verify_signature_fresh)
qed

text \<open>
  C1. When the age \<open>|now - timestamp|\<close> is at most \<open>max_age_seconds\<close>, \<open>verify_signature\<close>
  returns \<open>True\<close> exactly when the signature, without a leading \<open>sha256=\<close>, is the lowercase
  hexadecimal HMAC-SHA256 digest, keyed by the secret, of the text \<open>{timestamp}.{body}\<close>.
  A signature computed that way verifies, with the prefix and without it.
\<close>

theorem verify_signature_iff_expected:
  assumes "\<bar>now rt - tstamp\<bar> \<le> max_age_seconds v"
  shows "(fst (verify_signature rt v signature tstamp body) = Inr True \<longleftrightarrow>
            sig_value signature =
              hexdigest (hmac_sha256 rt (encode (secret v))
                (encode (str_int tstamp @ ''.'' @ body))))
       \<and> fst (verify_signature rt v (expected_signature rt v tstamp body) tstamp body) = Inr True
       \<and> fst (verify_signature rt v (''sha256='' @ expected_signature rt v tstamp body) tstamp body)
           = Inr True"
proof -
  let ?e = "expected_signature rt v tstamp body"
  have e: "?e = hexdigest (hmac_sha256 rt (encode (secret v))
                   (encode (str_int tstamp @ ''.'' @ body)))"
    by (simp add: expected_signature_def signing_message_def)
  have 1: "fst (verify_signature rt v s tstamp body) = Inr True \<longleftrightarrow> sig_value s = ?e" for s
    using assms by (rule verify_signature_fresh_iff)
  have 2: "sig_value ?e = ?e"
    unfolding expected_signature_def by (rule sig_value_hexdigest)
  have 3: "sig_value (''sha256='' @ ?e) = ?e" by (rule sig_value_prefixed)
  show ?thesis using 1 2 3 e by simp
qed

theorem verify_signature_iff_expected_witness:
  "\<bar>now sample_rt - 1705312800\<bar> \<le> max_age_seconds sample_verifier
   \<and> fst (verify_signature sample_rt sample_verifier ''sha256=36c37e'' 1705312800 contact_body)
       = Inr True
   \<and> fst (verify_signature sample_rt sample_verifier ''36c37e'' 1705312800 contact_body)
       = Inr True
   \<and> fst (verify_signature sample_rt sample_verifier ''sha256=invalid'' 1705312800 contact_body)
       \<noteq> Inr True"
proof -
  have h: "\<bar>now sample_rt - 1705312800\<bar> \<le> max_age_seconds sample_verifier"
    by (simp add: sample_fields)
  note t = verify_signature_iff_expected [OF h, where body = contact_body]
  have e: "hexdigest (hmac_sha256 sample_rt (encode (secret sample_verifier))
             (encode (str_int 1705312800 @ ''.'' @ contact_body))) = ''36c37e''"
    using expected_contact_now by (simp add: expected_signature_def signing_message_def)
  from t [of "''sha256=36c37e''"] t [of "''36c37e''"] t [of "''sha256=invalid''"] h
  show ?thesis
    unfolding e by (simp add: sig_value_def startswith_def)
qed

text \<open>
  C2. \<open>verify_signature\<close> returns \<open>False\<close>, whatever the signature, when the age
  \<open>|now - timestamp|\<close> exceeds \<open>max_age_seconds\<close>, and then it has only read the clock.
  A correctly signed pair of age exactly \<open>max_age_seconds\<close> passes; one of age
  \<open>max_age_seconds + 1\<close> fails.
\<close>

theorem verify_signature_replay_window:
  "(\<bar>now rt - tstamp\<bar> > max_age_seconds v \<longrightarrow>
      verify_signature rt v signature tstamp body = (Inr False, [Time_time]))
   \<and> (\<bar>now rt - tstamp\<bar> = max_age_seconds v
        \<and> sig_value signature = expected_signature rt v tstamp body \<longrightarrow>
      fst (verify_signature rt v signature tstamp body) = Inr True)
   \<and> (\<bar>now rt - tstamp\<bar> = max_age_seconds v + 1
        \<and> sig_value signature = expected_signature rt v tstamp body \<longrightarrow>
      fst (verify_signature rt v signature tstamp body) = Inr False)"
proof (intro conjI impI)
  assume "\<bar>now rt - tstamp\<bar> > max_age_seconds v"
  then show "verify_signature rt v signature tstamp body = (Inr False, [Time_time])"
    by (rule verify_signature_stale)
next
  assume a: "\<bar>now rt - tstamp\<bar> = max_age_seconds v
             \<and> sig_value signature = expected_signature rt v tstamp body"
  then have "\<bar>now rt - tstamp\<bar> \<le> max_age_seconds v" by simp
  from verify_signature_fresh_iff [OF this] a
  show "fst (verify_signature rt v signature tstamp body) = Inr True" by simp
next
  assume "\<bar>now rt - tstamp\<bar> = max_age_seconds v + 1
          \<and> sig_value signature = expected_signature rt v tstamp body"
  then have "\<bar>now rt - tstamp\<bar> > max_age_seconds v" by simp
  then show "fst (verify_signature rt v signature tstamp body) = Inr False"
    by (simp add: verify_signature_stale)
qed

theorem verify_signature_replay_window_witness:
  "\<bar>now sample_rt - 1705312200\<bar> > max_age_seconds sample_verifier
   \<and> verify_signature sample_rt sample_verifier ''sha256=36c37e'' 1705312200 contact_body
       = (Inr False, [Time_time])
   \<and> \<bar>now sample_rt - 1705312500\<bar> = max_age_seconds sample_verifier
   \<and> sig_value ''sha256=36c07e''
       = expected_signature sample_rt sample_verifier 1705312500 contact_body
   \<and> fst (verify_signature sample_rt sample_verifier ''sha256=36c07e'' 1705312500 contact_body)
       = Inr True
   \<and> \<bar>now sample_rt - 1705312499\<bar> = max_age_seconds sample_verifier + 1
   \<and> sig_value ''sha256=36d17e''
       = expected_signature sample_rt sample_verifier 1705312499 contact_body
   \<and> fst (verify_signature sample_rt sample_verifier ''sha256=36d17e'' 1705312499 contact_body)
       = Inr False"
proof -
  have a: "\<bar>now sample_rt - 1705312200\<bar> > max_age_seconds sample_verifier"
    and b: "\<bar>now sample_rt - 1705312500\<bar> = max_age_seconds sample_verifier"
    and c: "\<bar>now sample_rt - 1705312499\<bar> = max_age_seconds sample_verifier + 1"
    by (simp_all add: sample_fields)
  have sb: "sig_value ''sha256=36c07e''
            = expected_signature sample_rt sample_verifier 1705312500 contact_body"
    and sc: "sig_value ''sha256=36d17e''
            = expected_signature sample_rt sample_verifier 1705312499 contact_body"
    by (simp_all add: expected_contact_oldest expected_contact_expired sig_value_def
        startswith_def)
  from verify_signature_replay_window
         [where rt = sample_rt and tstamp = 1705312200 and v = sample_verifier
            and signature = "''sha256=36c37e''" and body = contact_body]
       verify_signature_replay_window
         [where rt = sample_rt and tstamp = 1705312500 and v = sample_verifier
            and signature = "''sha256=36c07e''" and body = contact_body]
       verify_signature_replay_window
         [where rt = sample_rt and tstamp = 1705312499 and v = sample_verifier
            and signature = "''sha256=36d17e''" and body = contact_body]
       a b c sb sc
  show ?thesis by simp
qed

subsection \<open>verify_and_parse\<close>

lemma verify_signature_no_json: "Json_loads b \<notin> set (snd (verify_signature rt v signature ts body))"
  by (simp add: verify_signature_def Let_def)

lemma verify_then_parse_rejected:
  assumes "fst (verify_signature rt v signature ts body) = Inr False"
  shows "verify_then_parse rt v signature ts body deliv =
           (Inl (ValueError ''Invalid webhook signature''),
            snd (verify_signature rt v signature ts body))"
  using assms by (cases "verify_signature rt v signature ts body") (simp add: verify_then_parse_def)

lemma verify_then_parse_raised:
  assumes "fst (verify_signature rt v signature ts body) = Inl e"
  shows "verify_then_parse rt v signature ts body deliv =
           (Inl e, snd (verify_signature rt v signature ts body))"
  using assms by (cases "verify_signature rt v signature ts body") (simp add: verify_then_parse_def)

lemma verify_then_parse_verified:
  assumes "fst (verify_signature rt v signature ts body) = Inr True"
  shows "verify_then_parse rt v signature ts body deliv =
           ((case json_loads rt body of
               Inl (JSONDecodeError m) \<Rightarrow> Inl (ValueError (''Invalid JSON payload: '' @ m))
             | Inl e \<Rightarrow> Inl e
             | Inr d \<Rightarrow> build_payload d deliv),
            snd (verify_signature rt v signature ts body) @ [Json_loads body])"
  using assms
  by (cases "verify_signature rt v signature ts body")
     (simp add: verify_then_parse_def split: sum.splits error.splits)

lemma verify_and_parse_coerced:
  assumes "fst (coerce_timestamp rt tstamp) = Inr ts"
  shows "verify_and_parse rt v signature tstamp body deliv =
           (fst (verify_then_parse rt v signature ts body deliv),
            snd (coerce_timestamp rt tstamp) @ snd (verify_then_parse rt v signature ts body deliv))"
  using assms
  by (cases "coerce_timestamp rt tstamp")
     (simp add: verify_and_parse_def split: prod.splits)

lemma verify_and_parse_not_coerced:
  assumes "fst (coerce_timestamp rt tstamp) = Inl e"
  shows "verify_and_parse rt v signature tstamp body deliv = (Inl e, snd (coerce_timestamp rt tstamp))"
  using assms
  by (cases "coerce_timestamp rt tstamp") (simp add: verify_and_parse_def)

lemma coerce_timestamp_calls: "Json_loads b \<notin> set (snd (coerce_timestamp rt tstamp))"
  by (simp add: coerce_timestamp_def split: str_or_int.splits)

lemma build_payload_dict:
  "build_payload (JDict items) deliv =
     (case map_of items ''event'' of
        None \<Rightarrow> Inl (ValueError ''Missing 'event' field in payload'')
      | Some ev \<Rightarrow>
     (case map_of items ''timestamp'' of
        None \<Rightarrow> Inl (ValueError ''Missing 'timestamp' field in payload'')
      | Some ts \<Rightarrow>
     (case map_of items ''data'' of
        None \<Rightarrow> Inl (ValueError ''Missing 'data' field in payload'')
      | Some da \<Rightarrow> Inr \<lparr>event = ev, timestamp = ts, data = da, delivery_id = deliv\<rparr>)))"
  by (auto simp: build_payload_def map_of_eq_None_iff [symmetric] simp del: map_of_eq_None_iff
      split: option.splits)

lemma build_payload_success:
  assumes "build_payload d deliv = Inr p"
  shows "\<exists>items. d = JDict items \<and> map_of items ''event'' = Some (event p)
           \<and> map_of items ''timestamp'' = Some (timestamp p)
           \<and> map_of items ''data'' = Some (data p) \<and> delivery_id p = deliv"
proof (cases d)
  case (JDict items)
  with assms show ?thesis
    by (auto simp: build_payload_dict split: option.splits)
qed (use assms in \<open>auto simp: build_payload_def split: if_splits\<close>)


lemma digits_now: "digits_int ''1705312800'' = Inr 1705312800"
  by (simp add: digits_int_def)

lemma coerce_now: "coerce_timestamp sample_rt (TsStr ''1705312800'') = (Inr 1705312800, [Int_str ''1705312800''])"
  by (simp add: coerce_timestamp_def sample_fields digits_now)

lemma fresh_now: "\<bar>now sample_rt - 1705312800\<bar> \<le> max_age_seconds sample_verifier"
  by (simp add: sample_fields)

lemma expected_unknown_now:
  "expected_signature sample_rt sample_verifier 1705312800 unknown_body = ''36736b''"
  by (simp add: eval_expected unknown_body_def)

lemma expected_partial_now:
  "expected_signature sample_rt sample_verifier 1705312800 partial_body = ''360125''"
  by (simp add: eval_expected partial_body_def)

lemma expected_invalid_now:
  "expected_signature sample_rt sample_verifier 1705312800 ''not valid json'' = ''368419''"
  by (simp add: eval_expected)

lemma verified_unknown:
  "fst (verify_signature sample_rt sample_verifier ''sha256=36736b'' 1705312800 unknown_body) = Inr True"
  using verify_signature_fresh_iff [OF fresh_now, of "''sha256=36736b''" unknown_body]
    sig_value_prefixed [of "''36736b''"]
  by (simp add: expected_unknown_now)

lemma verified_partial:
  "fst (verify_signature sample_rt sample_verifier ''sha256=360125'' 1705312800 partial_body) = Inr True"
  using verify_signature_fresh_iff [OF fresh_now, of "''sha256=360125''" partial_body]
    sig_value_prefixed [of "''360125''"]
  by (simp add: expected_partial_now)

lemma verified_invalid:
  "fst (verify_signature sample_rt sample_verifier ''sha256=368419'' 1705312800 ''not valid json'') = Inr True"
  using verify_signature_fresh_iff [OF fresh_now, of "''sha256=368419''" "''not valid json''"]
    sig_value_prefixed [of "''368419''"]
  by (simp add: expected_invalid_now)

lemma rejected_contact:
  "fst (verify_signature sample_rt sample_verifier ''sha256=invalid'' 1705312800 contact_body) = Inr False"
  using fresh_now
  by (simp add: verify_signature_fresh expected_contact_now compare_digest_def is_ascii_def
      sig_value_def startswith_def)

lemma loads_unknown: "json_loads sample_rt unknown_body = Inr unknown_json"
  by (simp add: sample_fields sample_loads_def unknown_body_def contact_body_def partial_body_def)

lemma loads_partial: "json_loads sample_rt partial_body = Inr partial_json"
  by (simp add: sample_fields sample_loads_def contact_body_def partial_body_def)

lemma loads_invalid:
  "json_loads sample_rt ''not valid json''
     = Inl (JSONDecodeError ''Expecting value: line 1 column 1 (char 0)'')"
  by (simp add: sample_fields sample_loads_def unknown_body_def contact_body_def partial_body_def)

text \<open>
  C3. \<open>verify_and_parse\<close> returns a payload only if \<open>verify_signature\<close> returned \<open>True\<close>
  on the same signature, timestamp and body. When \<open>verify_signature\<close> returns \<open>False\<close>, it
  raises \<open>ValueError("Invalid webhook signature")\<close> and has not called \<open>json.loads\<close>. A
  verified body that \<open>json.loads\<close> rejects gives the error with the parse diagnostic, not
  the signature error.
\<close>

theorem verify_and_parse_after_verification:
  "(fst (verify_and_parse rt v signature tstamp body deliv) = Inr p \<longrightarrow>
      (\<exists>ts. fst (coerce_timestamp rt tstamp) = Inr ts
          \<and> fst (verify_signature rt v signature ts body) = Inr True))
   \<and> (fst (coerce_timestamp rt tstamp) = Inr ts
        \<and> fst (verify_signature rt v signature ts body) = Inr False \<longrightarrow>
      fst (verify_and_parse rt v signature tstamp body deliv)
        = Inl (ValueError ''Invalid webhook signature'')
      \<and> (\<forall>b. Json_loads b \<notin> set (snd (verify_and_parse rt v signature tstamp body deliv))))
   \<and> (fst (coerce_timestamp rt tstamp) = Inr ts
        \<and> fst (verify_signature rt v signature ts body) = Inr True
        \<and> json_loads rt body = Inl (JSONDecodeError m) \<longrightarrow>
      fst (verify_and_parse rt v signature tstamp body deliv)
        = Inl (ValueError (''Invalid JSON payload: '' @ m))
      \<and> fst (verify_and_parse rt v signature tstamp body deliv)
        \<noteq> Inl (ValueError ''Invalid webhook signature''))"
proof (intro conjI impI)
  assume ok: "fst (verify_and_parse rt v signature tstamp body deliv) = Inr p"
  show "\<exists>ts. fst (coerce_timestamp rt tstamp) = Inr ts
          \<and> fst (verify_signature rt v signature ts body) = Inr True"
  proof (cases "fst (coerce_timestamp rt tstamp)")
    case (Inl e)
    with ok show ?thesis by (simp add: verify_and_parse_not_coerced)
  next
    case (Inr t)
    show ?thesis
    proof (cases "fst (verify_signature rt v signature t body)")
      case (Inl e)
      with ok Inr show ?thesis
        by (simp add: verify_and_parse_coerced verify_then_parse_raised)
    next
      case r: (Inr b)
      with ok Inr show ?thesis
        by (cases b) (simp_all add: verify_and_parse_coerced verify_then_parse_rejected)
    qed
  qed
next
  assume a: "fst (coerce_timestamp rt tstamp) = Inr ts
             \<and> fst (verify_signature rt v signature ts body) = Inr False"
  then show "fst (verify_and_parse rt v signature tstamp body deliv)
               = Inl (ValueError ''Invalid webhook signature'')"
    by (simp add: verify_and_parse_coerced verify_then_parse_rejected)
  from a show "\<forall>b. Json_loads b \<notin> set (snd (verify_and_parse rt v signature tstamp body deliv))"
    by (simp add: verify_and_parse_coerced verify_then_parse_rejected coerce_timestamp_calls
        verify_signature_no_json)
next
  assume a: "fst (coerce_timestamp rt tstamp) = Inr ts
             \<and> fst (verify_signature rt v signature ts body) = Inr True
             \<and> json_loads rt body = Inl (JSONDecodeError m)"
  then show "fst (verify_and_parse rt v signature tstamp body deliv)
               = Inl (ValueError (''Invalid JSON payload: '' @ m))"
    by (simp add: verify_and_parse_coerced verify_then_parse_verified)
  then show "fst (verify_and_parse rt v signature tstamp body deliv)
               \<noteq> Inl (ValueError ''Invalid webhook signature'')"
    by simp
qed


lemma parsed_unknown:
  "fst (verify_and_parse sample_rt sample_verifier ''sha256=36736b'' (TsStr ''1705312800'')
          unknown_body ''delivery-123'')
     = Inr \<lparr>event = JStr ''order.shipped'', timestamp = JStr ''2024-01-15T10:00:00Z'',
            data = JDict [], delivery_id = ''delivery-123''\<rparr>"
  by (simp add: verify_and_parse_coerced [where ts = 1705312800] coerce_now
      verify_then_parse_verified verified_unknown loads_unknown unknown_json_def
      build_payload_dict)

theorem verify_and_parse_after_verification_witness:
  "fst (verify_and_parse sample_rt sample_verifier ''sha256=36736b'' (TsStr ''1705312800'')
          unknown_body ''delivery-123'')
     = Inr \<lparr>event = JStr ''order.shipped'', timestamp = JStr ''2024-01-15T10:00:00Z'',
            data = JDict [], delivery_id = ''delivery-123''\<rparr>
   \<and> (\<exists>ts. fst (coerce_timestamp sample_rt (TsStr ''1705312800'')) = Inr ts
         \<and> fst (verify_signature sample_rt sample_verifier ''sha256=36736b'' ts unknown_body)
             = Inr True)
   \<and> fst (coerce_timestamp sample_rt (TsStr ''1705312800'')) = Inr 1705312800
   \<and> fst (verify_signature sample_rt sample_verifier ''sha256=invalid'' 1705312800 contact_body)
       = Inr False
   \<and> fst (verify_and_parse sample_rt sample_verifier ''sha256=invalid'' (TsStr ''1705312800'')
            contact_body [])
       = Inl (ValueError ''Invalid webhook signature'')
   \<and> (\<forall>b. Json_loads b \<notin> set (snd (verify_and_parse sample_rt sample_verifier
            ''sha256=invalid'' (TsStr ''1705312800'') contact_body [])))
   \<and> fst (verify_signature sample_rt sample_verifier ''sha256=368419'' 1705312800
            ''not valid json'') = Inr True
   \<and> json_loads sample_rt ''not valid json''
       = Inl (JSONDecodeError ''Expecting value: line 1 column 1 (char 0)'')
   \<and> fst (verify_and_parse sample_rt sample_verifier ''sha256=368419'' (TsStr ''1705312800'')
            ''not valid json'' [])
       = Inl (ValueError ''Invalid JSON payload: Expecting value: line 1 column 1 (char 0)'')"
proof -
  have c: "fst (coerce_timestamp sample_rt (TsStr ''1705312800'')) = Inr 1705312800"
    by (simp add: coerce_now)
  from verify_and_parse_after_verification
         [where rt = sample_rt and v = sample_verifier and signature = "''sha256=36736b''"
            and tstamp = "TsStr ''1705312800''" and body = unknown_body
            and deliv = "''delivery-123''"
            and p = "\<lparr>event = JStr ''order.shipped'', timestamp = JStr ''2024-01-15T10:00:00Z'',
                       data = JDict [], delivery_id = ''delivery-123''\<rparr>"]
       parsed_unknown
  have 1: "\<exists>ts. fst (coerce_timestamp sample_rt (TsStr ''1705312800'')) = Inr ts
         \<and> fst (verify_signature sample_rt sample_verifier ''sha256=36736b'' ts unknown_body)
             = Inr True"
    by blast
  from verify_and_parse_after_verification
         [where rt = sample_rt and v = sample_verifier and signature = "''sha256=invalid''"
            and tstamp = "TsStr ''1705312800''" and body = contact_body and deliv = "[]"
            and ts = 1705312800]
       c rejected_contact
  have 2: "fst (verify_and_parse sample_rt sample_verifier ''sha256=invalid''
                  (TsStr ''1705312800'') contact_body [])
             = Inl (ValueError ''Invalid webhook signature'')
           \<and> (\<forall>b. Json_loads b \<notin> set (snd (verify_and_parse sample_rt sample_verifier
                  ''sha256=invalid'' (TsStr ''1705312800'') contact_body [])))"
    by blast
  from verify_and_parse_after_verification
         [where rt = sample_rt and v = sample_verifier and signature = "''sha256=368419''"
            and tstamp = "TsStr ''1705312800''" and body = "''not valid json''" and deliv = "[]"
            and ts = 1705312800
            and m = "''Expecting value: line 1 column 1 (char 0)''"]
       c verified_invalid loads_invalid
  have 3: "fst (verify_and_parse sample_rt sample_verifier ''sha256=368419''
                  (TsStr ''1705312800'') ''not valid json'' [])
             = Inl (ValueError (''Invalid JSON payload: ''
                     @ ''Expecting value: line 1 column 1 (char 0)''))"
    by blast
  from 3 have 4: "fst (verify_and_parse sample_rt sample_verifier ''sha256=368419''
                  (TsStr ''1705312800'') ''not valid json'' [])
       = Inl (ValueError ''Invalid JSON payload: Expecting value: line 1 column 1 (char 0)'')"
    by simp
  show ?thesis
    using parsed_unknown 1 c rejected_contact 2 verified_invalid loads_invalid 4
    by (intro conjI) blast+
qed

text \<open>
  C5. For a verified body that parses to a JSON object without one of the keys \<open>event\<close>,
  \<open>timestamp\<close>, \<open>data\<close>, \<open>verify_and_parse\<close> raises \<open>ValueError("Missing '<key>' field in
  payload")\<close>, where the key is the first missing one in the order \<open>event\<close>, \<open>timestamp\<close>,
  \<open>data\<close>.
\<close>

theorem missing_field_reported_in_order:
  assumes "fst (coerce_timestamp rt tstamp) = Inr ts"
    and "fst (verify_signature rt v signature ts body) = Inr True"
    and "json_loads rt body = Inr (JDict items)"
    and "\<not> {''event'', ''timestamp'', ''data''} \<subseteq> fst ` set items"
  shows "\<exists>k. find (\<lambda>k. k \<notin> fst ` set items) [''event'', ''timestamp'', ''data''] = Some k
           \<and> fst (verify_and_parse rt v signature tstamp body deliv)
               = Inl (ValueError (''Missing '' @ [CHR 0x27] @ k @ [CHR 0x27] @ '' field in payload''))"
proof -
  have r: "fst (verify_and_parse rt v signature tstamp body deliv) = build_payload (JDict items) deliv"
    using assms(1-3) by (simp add: verify_and_parse_coerced verify_then_parse_verified)
  have m: "map_of items k = None \<longleftrightarrow> k \<notin> fst ` set items" for k
    by (rule map_of_eq_None_iff)
  show ?thesis
    unfolding r build_payload_dict using assms(4)
    by (auto simp: m [symmetric] simp del: map_of_eq_None_iff split: option.splits)
qed

theorem missing_field_reported_in_order_witness:
  "fst (coerce_timestamp sample_rt (TsStr ''1705312800'')) = Inr 1705312800
   \<and> fst (verify_signature sample_rt sample_verifier ''sha256=360125'' 1705312800 partial_body)
       = Inr True
   \<and> json_loads sample_rt partial_body = Inr (JDict [(''event'', JStr ''test''), (''data'', JDict [])])
   \<and> \<not> {''event'', ''timestamp'', ''data''}
         \<subseteq> fst ` set [(''event'', JStr ''test''), (''data'', JDict [])]
   \<and> fst (verify_and_parse sample_rt sample_verifier ''sha256=360125'' (TsStr ''1705312800'')
            partial_body [])
       = Inl (ValueError ''Missing 'timestamp' field in payload'')"
proof -
  have c: "fst (coerce_timestamp sample_rt (TsStr ''1705312800'')) = Inr 1705312800"
    by (simp add: coerce_now)
  have l: "json_loads sample_rt partial_body
             = Inr (JDict [(''event'', JStr ''test''), (''data'', JDict [])])"
    using loads_partial by (simp add: partial_json_def)
  have m: "\<not> {''event'', ''timestamp'', ''data''}
             \<subseteq> fst ` set [(''event'', JStr ''test''), (''data'', JDict [])]"
    by simp
  from missing_field_reported_in_order [OF c verified_partial l m, of "[]"]
  have "fst (verify_and_parse sample_rt sample_verifier ''sha256=360125'' (TsStr ''1705312800'')
            partial_body [])
       = Inl (ValueError ''Missing 'timestamp' field in payload'')"
    by auto
  with c verified_partial l m show ?thesis by blast
qed

lemma payload_fields:
  assumes "fst (verify_and_parse rt v signature tstamp body deliv) = Inr p"
  shows "(\<exists>items. json_loads rt body = Inr (JDict items)
            \<and> map_of items ''event'' = Some (event p)
            \<and> map_of items ''timestamp'' = Some (timestamp p)
            \<and> map_of items ''data'' = Some (data p))
         \<and> delivery_id p = deliv"
proof (cases "fst (coerce_timestamp rt tstamp)")
  case (Inl e)
  with assms show ?thesis by (simp add: verify_and_parse_not_coerced)
next
  case c: (Inr ts)
  show ?thesis
  proof (cases "fst (verify_signature rt v signature ts body)")
    case (Inl e)
    with assms c show ?thesis
      by (simp add: verify_and_parse_coerced verify_then_parse_raised)
  next
    case (Inr b)
    show ?thesis
    proof (cases b)
      case False
      with assms c Inr show ?thesis
        by (simp add: verify_and_parse_coerced verify_then_parse_rejected)
    next
      case True
      with assms c Inr have
        "(case json_loads rt body of
               Inl (JSONDecodeError m) \<Rightarrow> Inl (ValueError (''Invalid JSON payload: '' @ m))
             | Inl e \<Rightarrow> Inl e
             | Inr d \<Rightarrow> build_payload d deliv) = Inr p"
        by (simp add: verify_and_parse_coerced verify_then_parse_verified)
      then obtain d where d: "json_loads rt body = Inr d" "build_payload d deliv = Inr p"
        by (auto split: sum.splits error.splits)
      from build_payload_success [OF d(2)] d(1) show ?thesis by auto
    qed
  qed
qed

text \<open>
  C7. The payload that \<open>verify_and_parse\<close> returns has \<open>event\<close>, \<open>timestamp\<close> and \<open>data\<close> from
  the keys of that name in the parsed body, and \<open>delivery_id\<close> from the argument of the
  caller, the empty text when the argument is left out; no key of the body reaches
  \<open>delivery_id\<close>.
\<close>

theorem payload_fields_from_body:
  "(fst (verify_and_parse rt v signature tstamp body deliv) = Inr p \<longrightarrow>
      (\<exists>items. json_loads rt body = Inr (JDict items)
          \<and> map_of items ''event'' = Some (event p)
          \<and> map_of items ''timestamp'' = Some (timestamp p)
          \<and> map_of items ''data'' = Some (data p))
      \<and> delivery_id p = deliv)
   \<and> (fst (verify_and_parse_default rt v signature tstamp body) = Inr q \<longrightarrow>
        delivery_id q = [])"
  using payload_fields [of rt v signature tstamp body deliv p]
    payload_fields [of rt v signature tstamp body "[]" q]
  unfolding verify_and_parse_default_def by blast

theorem payload_fields_from_body_witness:
  "fst (verify_and_parse sample_rt sample_verifier ''sha256=36736b'' (TsStr ''1705312800'')
          unknown_body ''delivery-123'')
     = Inr \<lparr>event = JStr ''order.shipped'', timestamp = JStr ''2024-01-15T10:00:00Z'',
            data = JDict [], delivery_id = ''delivery-123''\<rparr>
   \<and> json_loads sample_rt unknown_body
       = Inr (JDict [(''event'', JStr ''order.shipped''),
                     (''timestamp'', JStr ''2024-01-15T10:00:00Z''),
                     (''data'', JDict []),
                     (''delivery_id'', JStr ''from-body'')])
   \<and> delivery_id \<lparr>event = JStr ''order.shipped'', timestamp = JStr ''2024-01-15T10:00:00Z'',
            data = JDict [], delivery_id = ''delivery-123''\<rparr> = ''delivery-123''
   \<and> fst (verify_and_parse_default sample_rt sample_verifier ''sha256=36736b''
            (TsStr ''1705312800'') unknown_body)
     = Inr \<lparr>event = JStr ''order.shipped'', timestamp = JStr ''2024-01-15T10:00:00Z'',
            data = JDict [], delivery_id = []\<rparr>
   \<and> delivery_id \<lparr>event = JStr ''order.shipped'', timestamp = JStr ''2024-01-15T10:00:00Z'',
            data = JDict [], delivery_id = []\<rparr> = []"
proof -
  let ?p = "\<lparr>event = JStr ''order.shipped'', timestamp = JStr ''2024-01-15T10:00:00Z'',
             data = JDict [], delivery_id = ''delivery-123''\<rparr>"
  let ?q = "\<lparr>event = JStr ''order.shipped'', timestamp = JStr ''2024-01-15T10:00:00Z'',
             data = JDict [], delivery_id = []\<rparr>"
  have d: "fst (verify_and_parse_default sample_rt sample_verifier ''sha256=36736b''
                  (TsStr ''1705312800'') unknown_body) = Inr ?q"
    by (simp add: verify_and_parse_default_def verify_and_parse_coerced [where ts = 1705312800]
        coerce_now verify_then_parse_verified verified_unknown loads_unknown unknown_json_def
        build_payload_dict)
  from payload_fields_from_body
         [where rt = sample_rt and v = sample_verifier and signature = "''sha256=36736b''"
            and tstamp = "TsStr ''1705312800''" and body = unknown_body
            and deliv = "''delivery-123''" and p = ?p and q = ?q]
       parsed_unknown d
  have "delivery_id ?p = ''delivery-123'' \<and> delivery_id ?q = []" by blast
  with parsed_unknown d loads_unknown show ?thesis
    by (simp add: unknown_json_def)
qed

text \<open>
  C8. \<open>verify_and_parse\<close> does not compare the \<open>event\<close> of the body with the events of
  \<open>WebhookEvent\<close>: a verified body with the keys \<open>event\<close>, \<open>timestamp\<close> and \<open>data\<close> is accepted
  for every text under \<open>event\<close>, and the payload holds that text.
\<close>

theorem event_not_validated:
  assumes "fst (coerce_timestamp rt tstamp) = Inr ts"
    and "fst (verify_signature rt v signature ts body) = Inr True"
    and "json_loads rt body = Inr (JDict items)"
    and "map_of items ''event'' = Some (JStr e)"
    and "map_of items ''timestamp'' = Some t"
    and "map_of items ''data'' = Some d"
  shows "fst (verify_and_parse rt v signature tstamp body deliv)
           = Inr \<lparr>event = JStr e, timestamp = t, data = d, delivery_id = deliv\<rparr>"
  using assms
  by (simp add: verify_and_parse_coerced verify_then_parse_verified build_payload_dict)

theorem event_not_validated_witness:
  "fst (coerce_timestamp sample_rt (TsStr ''1705312800'')) = Inr 1705312800
   \<and> fst (verify_signature sample_rt sample_verifier ''sha256=36736b'' 1705312800 unknown_body)
       = Inr True
   \<and> json_loads sample_rt unknown_body
       = Inr (JDict [(''event'', JStr ''order.shipped''),
                     (''timestamp'', JStr ''2024-01-15T10:00:00Z''),
                     (''data'', JDict []),
                     (''delivery_id'', JStr ''from-body'')])
   \<and> ''order.shipped'' \<notin> set WebhookEvent
   \<and> fst (verify_and_parse sample_rt sample_verifier ''sha256=36736b'' (TsStr ''1705312800'')
            unknown_body [])
       = Inr \<lparr>event = JStr ''order.shipped'', timestamp = JStr ''2024-01-15T10:00:00Z'',
              data = JDict [], delivery_id = []\<rparr>"
proof -
  let ?items = "[(''event'', JStr ''order.shipped''),
                 (''timestamp'', JStr ''2024-01-15T10:00:00Z''),
                 (''data'', JDict []),
                 (''delivery_id'', JStr ''from-body'')]"
  have c: "fst (coerce_timestamp sample_rt (TsStr ''1705312800'')) = Inr 1705312800"
    by (simp add: coerce_now)
  have l: "json_loads sample_rt unknown_body = Inr (JDict ?items)"
    using loads_unknown by (simp add: unknown_json_def)
  have e: "map_of ?items ''event'' = Some (JStr ''order.shipped'')"
    and t: "map_of ?items ''timestamp'' = Some (JStr ''2024-01-15T10:00:00Z'')"
    and d: "map_of ?items ''data'' = Some (JDict [])"
    by simp_all
  have n: "''order.shipped'' \<notin> set WebhookEvent"
    by (simp add: WebhookEvent_def)
  from event_not_validated [OF c verified_unknown l e t d, of "[]"] c verified_unknown l n
  show ?thesis by blast
qed

text \<open>
  C9. When \<open>int\<close> raises on the text given as timestamp, \<open>verify_and_parse\<close> raises that same
  exception, and \<open>int\<close> is the only call it has made: the clock is not read, no signature
  is computed or compared, and the body is not parsed.
\<close>

theorem int_error_propagates:
  assumes "int_str rt s = Inl e"
  shows "verify_and_parse rt v signature (TsStr s) body deliv = (Inl e, [Int_str s])"
  using assms by (simp add: verify_and_parse_def coerce_timestamp_def)

theorem int_error_propagates_witness:
  "int_str sample_rt ''abc''
     = Inl (ValueError (''invalid literal for int() with base 10: '' @ [CHR 0x27] @ ''abc''
              @ [CHR 0x27]))
   \<and> verify_and_parse sample_rt sample_verifier ''sha256=36c37e'' (TsStr ''abc'') contact_body []
       = (Inl (ValueError (''invalid literal for int() with base 10: '' @ [CHR 0x27] @ ''abc''
                 @ [CHR 0x27])),
          [Int_str ''abc''])"
proof -
  have i: "int_str sample_rt ''abc''
             = Inl (ValueError (''invalid literal for int() with base 10: '' @ [CHR 0x27]
                      @ ''abc'' @ [CHR 0x27]))"
    by (simp add: sample_fields digits_int_def)
  from int_error_propagates [OF i] i show ?thesis by blast
qed

text \<open>The scenario of \<open>test_verify_and_parse_valid\<close> on the sample runtime.\<close>

lemma verified_contact:
  "fst (verify_signature sample_rt sample_verifier ''sha256=36c37e'' 1705312800 contact_body)
     = Inr True"
  using verify_signature_fresh_iff [OF fresh_now, of "''sha256=36c37e''" contact_body]
    sig_value_prefixed [of "''36c37e''"]
  by (simp add: expected_contact_now)

lemma parsed_contact:
  "fst (verify_and_parse sample_rt sample_verifier ''sha256=36c37e'' (TsStr ''1705312800'')
          contact_body ''delivery-123'')
     = Inr \<lparr>event = JStr ''contact.created'', timestamp = JStr ''2024-01-15T10:00:00Z'',
            data = JDict [(''contactId'', JStr ''abc123''), (''emailHash'', JStr ''sha1hash'')],
            delivery_id = ''delivery-123''\<rparr>"
  by (simp add: verify_and_parse_coerced [where ts = 1705312800] coerce_now
      verify_then_parse_verified verified_contact sample_fields sample_loads_def
      contact_json_def build_payload_dict)

lemma contact_accessors:
  fixes p :: WebhookPayload
  assumes "p = \<lparr>event = JStr ''contact.created'', timestamp = JStr ''2024-01-15T10:00:00Z'',
            data = JDict [(''contactId'', JStr ''abc123''), (''emailHash'', JStr ''sha1hash'')],
            delivery_id = ''delivery-123''\<rparr>"
  shows "contact_id p = Inr (Some (JStr ''abc123''))"
    and "email_hash p = Inr (Some (JStr ''sha1hash''))"
    and "email p = Inr None"
  by (simp_all add: assms contact_id_def email_hash_def email_def data_get_def)


subsection \<open>extract_headers\<close>

lemma foldl_normalize:
  "foldl (\<lambda>m (k, v). m(lower k \<mapsto> v)) m headers
     = m ++ map_of (rev (map (\<lambda>(k, v). (lower k, v)) headers))"
proof (induction headers arbitrary: m)
  case Nil
  show ?case by simp
next
  case (Cons h headers)
  obtain k v where h: "h = (k, v)" by (cases h)
  let ?f = "\<lambda>m (k, v). m(lower k \<mapsto> v)"
  let ?r = "rev (map (\<lambda>(k, v). (lower k, v)) headers)"
  have "foldl ?f m (h # headers) = foldl ?f (m(lower k \<mapsto> v)) headers"
    by (simp only: foldl_Cons h case_prod_conv)
  also have "\<dots> = m(lower k \<mapsto> v) ++ map_of ?r"
    by (rule Cons.IH)
  also have "m(lower k \<mapsto> v) = m ++ map_of [(lower k, v)]"
    by simp
  also have "m ++ map_of [(lower k, v)] ++ map_of ?r = m ++ map_of (?r @ [(lower k, v)])"
    by (simp only: map_of_append map_add_assoc)
  also have "?r @ [(lower k, v)] = rev (map (\<lambda>(k, v). (lower k, v)) (h # headers))"
    by (simp add: h)
  finally show ?case .
qed

lemma normalized_map_of:
  "normalized headers = map_of (rev (map (\<lambda>(k, v). (lower k, v)) headers))"
  by (simp add: normalized_def foldl_normalize)

lemma normalized_cong:
  "map (\<lambda>(k, v). (lower k, v)) h = map (\<lambda>(k, v). (lower k, v)) h' \<Longrightarrow>
   normalized h = normalized h'"
  by (simp add: normalized_map_of)

lemma normalized_None: "normalized h name = None \<longleftrightarrow> name \<notin> lower ` fst ` set h"
proof -
  have "fst ` set (rev (map (\<lambda>(k, v). (lower k, v)) h)) = lower ` fst ` set h"
    by (force simp: image_iff)
  then show ?thesis by (simp add: normalized_map_of map_of_eq_None_iff)
qed

lemma extract_headers_normalized:
  "extract_headers h =
     (if \<not> truthy (normalized h ''x-webhook-signature'')
        then Inl (ValueError ''Missing X-Webhook-Signature header'')
      else if \<not> truthy (normalized h ''x-webhook-timestamp'')
        then Inl (ValueError ''Missing X-Webhook-Timestamp header'')
      else Inr (the (normalized h ''x-webhook-signature''),
                the (normalized h ''x-webhook-timestamp''),
                (case normalized h ''x-webhook-event'' of None \<Rightarrow> [] | Some e \<Rightarrow> e),
                (case normalized h ''x-webhook-delivery-id'' of None \<Rightarrow> [] | Some d \<Rightarrow> d)))"
  by (simp add: extract_headers_def truthy_def Let_def split: option.splits)

lemma lower_names:
  "lower ''X-Webhook-Signature'' = ''x-webhook-signature''"
  "lower ''X-Webhook-Timestamp'' = ''x-webhook-timestamp''"
  "lower ''X-Webhook-Event'' = ''x-webhook-event''"
  "lower ''X-Webhook-Delivery-Id'' = ''x-webhook-delivery-id''"
  "lower ''x-webhook-signature'' = ''x-webhook-signature''"
  "lower ''x-webhook-timestamp'' = ''x-webhook-timestamp''"
  "lower ''x-webhook-event'' = ''x-webhook-event''"
  "lower ''x-webhook-delivery-id'' = ''x-webhook-delivery-id''"
  by code_simp+

text \<open>
  C6. \<open>extract_headers\<close> looks the four names up in a dictionary keyed by the lowercase
  names, so two header lists with the same values under names that agree in lowercase
  give the same result. Without \<open>x-webhook-signature\<close> the error names that header; with
  it, and without \<open>x-webhook-timestamp\<close>, the error names the timestamp header. On
  success an absent \<open>x-webhook-event\<close> or \<open>x-webhook-delivery-id\<close> gives the empty text.
\<close>

theorem extract_headers_case_insensitive:
  "(map (\<lambda>(k, v). (lower k, v)) h = map (\<lambda>(k, v). (lower k, v)) h' \<longrightarrow>
      extract_headers h = extract_headers h')
   \<and> (''x-webhook-signature'' \<notin> lower ` fst ` set h \<longrightarrow>
        extract_headers h = Inl (ValueError ''Missing X-Webhook-Signature header''))
   \<and> (normalized h ''x-webhook-signature'' = Some sg \<and> sg \<noteq> []
        \<and> ''x-webhook-timestamp'' \<notin> lower ` fst ` set h \<longrightarrow>
        extract_headers h = Inl (ValueError ''Missing X-Webhook-Timestamp header''))
   \<and> (extract_headers h = Inr (s, t, ev, dl) \<longrightarrow>
        normalized h ''x-webhook-signature'' = Some s
        \<and> normalized h ''x-webhook-timestamp'' = Some t
        \<and> (''x-webhook-event'' \<notin> lower ` fst ` set h \<longrightarrow> ev = [])
        \<and> (''x-webhook-delivery-id'' \<notin> lower ` fst ` set h \<longrightarrow> dl = []))"
proof (intro conjI impI)
  assume "map (\<lambda>(k, v). (lower k, v)) h = map (\<lambda>(k, v). (lower k, v)) h'"
  then have "normalized h = normalized h'" by (rule normalized_cong)
  then show "extract_headers h = extract_headers h'"
    by (simp add: extract_headers_def)
next
  assume "''x-webhook-signature'' \<notin> lower ` fst ` set h"
  then have "normalized h ''x-webhook-signature'' = None"
    by (simp add: normalized_None)
  then show "extract_headers h = Inl (ValueError ''Missing X-Webhook-Signature header'')"
    by (simp add: extract_headers_normalized truthy_def)
next
  assume a: "normalized h ''x-webhook-signature'' = Some sg \<and> sg \<noteq> []
             \<and> ''x-webhook-timestamp'' \<notin> lower ` fst ` set h"
  then have "normalized h ''x-webhook-timestamp'' = None"
    by (simp add: normalized_None)
  with a show "extract_headers h = Inl (ValueError ''Missing X-Webhook-Timestamp header'')"
    by (simp add: extract_headers_normalized truthy_def)
next
  assume r: "extract_headers h = Inr (s, t, ev, dl)"
  then show "normalized h ''x-webhook-signature'' = Some s"
    by (auto simp: extract_headers_normalized truthy_def split: if_splits option.splits)
  from r show "normalized h ''x-webhook-timestamp'' = Some t"
    by (auto simp: extract_headers_normalized truthy_def split: if_splits option.splits)
  {
    assume "''x-webhook-event'' \<notin> lower ` fst ` set h"
    then have "normalized h ''x-webhook-event'' = None"
      by (simp add: normalized_None)
    with r show "ev = []"
      by (auto simp: extract_headers_normalized split: if_splits)
  }
  {
    assume "''x-webhook-delivery-id'' \<notin> lower ` fst ` set h"
    then have "normalized h ''x-webhook-delivery-id'' = None"
      by (simp add: normalized_None)
    with r show "dl = []"
      by (auto simp: extract_headers_normalized split: if_splits)
  }
qed

lemma extract_mixed:
  "extract_headers
     [(''X-Webhook-Signature'', ''sha256=abc123''), (''X-Webhook-Timestamp'', ''1705312800''),
      (''X-Webhook-Event'', ''contact.created''), (''X-Webhook-Delivery-Id'', ''delivery-123'')]
   = Inr (''sha256=abc123'', ''1705312800'', ''contact.created'', ''delivery-123'')"
  by (simp add: extract_headers_def normalized_def lower_names)

lemma extract_no_signature:
  "extract_headers [(''X-Webhook-Timestamp'', ''1705312800'')]
     = Inl (ValueError ''Missing X-Webhook-Signature header'')"
  by (simp add: extract_headers_def normalized_def lower_names)

lemma extract_no_timestamp:
  "extract_headers [(''X-Webhook-Signature'', ''sha256=abc123'')]
     = Inl (ValueError ''Missing X-Webhook-Timestamp header'')"
  by (simp add: extract_headers_def normalized_def lower_names)

lemma extract_required_only:
  "extract_headers
     [(''X-Webhook-Signature'', ''sha256=abc123''), (''X-Webhook-Timestamp'', ''1705312800'')]
   = Inr (''sha256=abc123'', ''1705312800'', [], [])"
  by (simp add: extract_headers_def normalized_def lower_names)

theorem extract_headers_case_insensitive_witness:
  "map (\<lambda>(k, v). (lower k, v))
      [(''X-Webhook-Signature'', ''sha256=abc123''), (''X-Webhook-Timestamp'', ''1705312800''),
       (''X-Webhook-Event'', ''contact.created''), (''X-Webhook-Delivery-Id'', ''delivery-123'')]
    = map (\<lambda>(k, v). (lower k, v))
      [(''x-webhook-signature'', ''sha256=abc123''), (''x-webhook-timestamp'', ''1705312800''),
       (''x-webhook-event'', ''contact.created''), (''x-webhook-delivery-id'', ''delivery-123'')]
   \<and> extract_headers
      [(''x-webhook-signature'', ''sha256=abc123''), (''x-webhook-timestamp'', ''1705312800''),
       (''x-webhook-event'', ''contact.created''), (''x-webhook-delivery-id'', ''delivery-123'')]
    = Inr (''sha256=abc123'', ''1705312800'', ''contact.created'', ''delivery-123'')
   \<and> ''x-webhook-signature'' \<notin> lower ` fst ` set [(''X-Webhook-Timestamp'', ''1705312800'')]
   \<and> extract_headers [(''X-Webhook-Timestamp'', ''1705312800'')]
       = Inl (ValueError ''Missing X-Webhook-Signature header'')
   \<and> normalized [(''X-Webhook-Signature'', ''sha256=abc123'')] ''x-webhook-signature''
       = Some ''sha256=abc123''
   \<and> ''x-webhook-timestamp'' \<notin> lower ` fst ` set [(''X-Webhook-Signature'', ''sha256=abc123'')]
   \<and> extract_headers [(''X-Webhook-Signature'', ''sha256=abc123'')]
       = Inl (ValueError ''Missing X-Webhook-Timestamp header'')
   \<and> extract_headers
        [(''X-Webhook-Signature'', ''sha256=abc123''), (''X-Webhook-Timestamp'', ''1705312800'')]
       = Inr (''sha256=abc123'', ''1705312800'', [], [])
   \<and> ''x-webhook-event'' \<notin> lower ` fst ` set
        [(''X-Webhook-Signature'', ''sha256=abc123''), (''X-Webhook-Timestamp'', ''1705312800'')]
   \<and> ''x-webhook-delivery-id'' \<notin> lower ` fst ` set
        [(''X-Webhook-Signature'', ''sha256=abc123''), (''X-Webhook-Timestamp'', ''1705312800'')]"
proof -
  let ?mixed = "[(''X-Webhook-Signature'', ''sha256=abc123''),
                 (''X-Webhook-Timestamp'', ''1705312800''),
                 (''X-Webhook-Event'', ''contact.created''),
                 (''X-Webhook-Delivery-Id'', ''delivery-123'')]"
  let ?low = "[(''x-webhook-signature'', ''sha256=abc123''),
               (''x-webhook-timestamp'', ''1705312800''),
               (''x-webhook-event'', ''contact.created''),
               (''x-webhook-delivery-id'', ''delivery-123'')]"
  let ?ts = "[(''X-Webhook-Timestamp'', ''1705312800'')]"
  let ?sg = "[(''X-Webhook-Signature'', ''sha256=abc123'')]"
  let ?req = "[(''X-Webhook-Signature'', ''sha256=abc123''),
               (''X-Webhook-Timestamp'', ''1705312800'')]"
  have m: "map (\<lambda>(k, v). (lower k, v)) ?mixed = map (\<lambda>(k, v). (lower k, v)) ?low"
    by (simp add: lower_names)
  have a: "''x-webhook-signature'' \<notin> lower ` fst ` set ?ts"
    by (simp add: lower_names)
  have b: "normalized ?sg ''x-webhook-signature'' = Some ''sha256=abc123''"
    and c: "''x-webhook-timestamp'' \<notin> lower ` fst ` set ?sg"
    by (simp_all add: normalized_def lower_names)
  have d: "''x-webhook-event'' \<notin> lower ` fst ` set ?req"
    and e: "''x-webhook-delivery-id'' \<notin> lower ` fst ` set ?req"
    by (simp_all add: lower_names)
  from extract_headers_case_insensitive [where h = ?mixed and h' = ?low] m extract_mixed
  have 1: "extract_headers ?low
             = Inr (''sha256=abc123'', ''1705312800'', ''contact.created'', ''delivery-123'')"
    by simp
  from extract_headers_case_insensitive [where h = ?ts] a
  have 2: "extract_headers ?ts = Inl (ValueError ''Missing X-Webhook-Signature header'')"
    by blast
  from extract_headers_case_insensitive [where h = ?sg and sg = "''sha256=abc123''"] b c
  have 3: "extract_headers ?sg = Inl (ValueError ''Missing X-Webhook-Timestamp header'')"
    by simp
  show ?thesis
    using m 1 a 2 b c 3 extract_required_only d e by (intro conjI) blast+
qed


text \<open>
  C10, as amended. The two checks test truthiness, so an empty value counts as a missing
  header. When \<open>x-webhook-signature\<close> maps to the empty text, the error names the signature
  header. When \<open>x-webhook-timestamp\<close> maps to the empty text, a missing-header error is
  raised too; it names the timestamp header if \<open>x-webhook-signature\<close> is present with a
  non-empty value, and the signature header otherwise, since that check comes first.
\<close>

theorem extract_headers_empty_value:
  "(normalized h ''x-webhook-signature'' = Some [] \<longrightarrow>
      extract_headers h = Inl (ValueError ''Missing X-Webhook-Signature header''))
   \<and> (normalized h ''x-webhook-timestamp'' = Some [] \<longrightarrow>
        extract_headers h =
          (if truthy (normalized h ''x-webhook-signature'')
           then Inl (ValueError ''Missing X-Webhook-Timestamp header'')
           else Inl (ValueError ''Missing X-Webhook-Signature header'')))
   \<and> (normalized h ''x-webhook-timestamp'' = Some []
        \<and> normalized h ''x-webhook-signature'' = Some sg \<and> sg \<noteq> [] \<longrightarrow>
        extract_headers h = Inl (ValueError ''Missing X-Webhook-Timestamp header''))"
  by (simp add: extract_headers_normalized truthy_def)

theorem extract_headers_empty_value_witness:
  "normalized [(''X-Webhook-Signature'', []), (''X-Webhook-Timestamp'', ''1705312800'')]
      ''x-webhook-signature'' = Some []
   \<and> extract_headers [(''X-Webhook-Signature'', []), (''X-Webhook-Timestamp'', ''1705312800'')]
       = Inl (ValueError ''Missing X-Webhook-Signature header'')
   \<and> normalized [(''X-Webhook-Signature'', ''sha256=abc123''), (''X-Webhook-Timestamp'', [])]
      ''x-webhook-timestamp'' = Some []
   \<and> normalized [(''X-Webhook-Signature'', ''sha256=abc123''), (''X-Webhook-Timestamp'', [])]
      ''x-webhook-signature'' = Some ''sha256=abc123''
   \<and> extract_headers [(''X-Webhook-Signature'', ''sha256=abc123''), (''X-Webhook-Timestamp'', [])]
       = Inl (ValueError ''Missing X-Webhook-Timestamp header'')"
proof -
  let ?a = "[(''X-Webhook-Signature'', []), (''X-Webhook-Timestamp'', ''1705312800'')]"
  let ?b = "[(''X-Webhook-Signature'', ''sha256=abc123''), (''X-Webhook-Timestamp'', [])]"
  have a: "normalized ?a ''x-webhook-signature'' = Some []"
    and b: "normalized ?b ''x-webhook-timestamp'' = Some []"
    and c: "normalized ?b ''x-webhook-signature'' = Some ''sha256=abc123''"
    by (simp_all add: normalized_def lower_names)
  from extract_headers_empty_value [where h = ?a] a
  have 1: "extract_headers ?a = Inl (ValueError ''Missing X-Webhook-Signature header'')"
    by blast
  from extract_headers_empty_value [where h = ?b and sg = "''sha256=abc123''"] b c
  have 2: "extract_headers ?b = Inl (ValueError ''Missing X-Webhook-Timestamp header'')"
    by (simp add: truthy_def)
  from a 1 b c 2 show ?thesis by blast
qed

text \<open>
  C10, as stated, fails for the headers that hold an empty \<open>x-webhook-timestamp\<close> and no
  \<open>x-webhook-signature\<close>: the error names the signature header, not the timestamp header.
\<close>

theorem extract_headers_empty_timestamp_counterexample:
  "normalized [(''x-webhook-timestamp'', [])] ''x-webhook-timestamp'' = Some []
   \<and> extract_headers [(''x-webhook-timestamp'', [])]
       = Inl (ValueError ''Missing X-Webhook-Signature header'')
   \<and> extract_headers [(''x-webhook-timestamp'', [])]
       \<noteq> Inl (ValueError ''Missing X-Webhook-Timestamp header'')"
  by (simp add: extract_headers_def normalized_def lower_names)

end
